theory Spec2Isabelle
  imports Main
begin

section \<open>The JSON-to-Excel tool of locuststudy/test1.py\<close>

text \<open>
  The class \<open>JSONToExcelTool\<close> parses a JSON document, extracts a list of test-case
  records from it by structural heuristics, projects every record onto a row of twelve
  fixed columns and hands the rows to a spreadsheet or CSV writer. This theory embeds
  the extraction, the projection and the entry point \<open>run\<close>, and proves the properties
  the specification states about them.
\<close>

subsection \<open>Values\<close>

text \<open>
  What \<open>json.loads\<close> returns: \<open>None\<close>, a \<open>bool\<close>, an unbounded \<open>int\<close>, a
  \<open>float\<close>, a \<open>str\<close>, a \<open>list\<close> or a \<open>dict\<close> with string keys. A dict keeps the
  insertion order of its keys (\<open>values()\<close> and \<open>items()\<close> iterate in it), so it is an
  association list; a Python dict has every key once, and \<open>wf_json\<close> says so. The tool
  never computes with a float: it only prints one, so a float is carried as the text
  Python's \<open>repr\<close> prints for it. Strings are byte strings in UTF-8.
\<close>

datatype json =
    JNull
  | JBool bool
  | JInt int
  | JFloat string
  | JStr string
  | JList "json list"
  | JDict "(string \<times> json) list"

type_synonym pydict = "(string \<times> json) list"

fun wf_json :: "json \<Rightarrow> bool" where
  "wf_json (JList xs) = list_all wf_json xs"
| "wf_json (JDict kvs) = (distinct (map fst kvs) \<and> list_all (\<lambda>kv. wf_json (snd kv)) kvs)"
| "wf_json _ = True"

text \<open>\<open>key in d\<close>, and \<open>d.get(key, default)\<close>.\<close>

definition has_key :: "pydict \<Rightarrow> string \<Rightarrow> bool" where
  "has_key d k = (map_of d k \<noteq> None)"

definition dict_get :: "pydict \<Rightarrow> string \<Rightarrow> json \<Rightarrow> json" where
  "dict_get d k dflt = (case map_of d k of Some v \<Rightarrow> v | None \<Rightarrow> dflt)"

definition is_list :: "json \<Rightarrow> bool" where
  "is_list v = (case v of JList _ \<Rightarrow> True | _ \<Rightarrow> False)"

definition is_dict :: "json \<Rightarrow> bool" where
  "is_dict v = (case v of JDict _ \<Rightarrow> True | _ \<Rightarrow> False)"

definition is_str :: "json \<Rightarrow> bool" where
  "is_str v = (case v of JStr _ \<Rightarrow> True | _ \<Rightarrow> False)"

subsection \<open>Extraction of the test cases\<close>

text \<open>
  \<^verbatim>\<open>
  def _is_test_case(self, obj):
      test_case_indicators = ['id', 'case_id', 'title', 'name', 'steps']
      return any(indicator in obj for indicator in test_case_indicators)
  \<close>
\<close>

definition test_case_indicators :: "string list" where
  "test_case_indicators = [''id'', ''case_id'', ''title'', ''name'', ''steps'']"

definition is_test_case :: "pydict \<Rightarrow> bool" where
  "is_test_case obj = list_ex (\<lambda>indicator. has_key obj indicator) test_case_indicators"

text \<open>
  \<^verbatim>\<open>
  def _deep_search_test_cases(self, data):
      results = []
      if isinstance(data, dict):
          if self._is_test_case(data):
              results.append(data)
          else:
              for value in data.values():
                  results.extend(self._deep_search_test_cases(value))
      elif isinstance(data, list):
          for item in data:
              results.extend(self._deep_search_test_cases(item))
      return results
  \<close>
\<close>

fun deep_search_test_cases :: "json \<Rightarrow> json list" where
  "deep_search_test_cases (JDict d) =
     (if is_test_case d then [JDict d]
      else concat (map (\<lambda>kv. deep_search_test_cases (snd kv)) d))"
| "deep_search_test_cases (JList xs) = concat (map deep_search_test_cases xs)"
| "deep_search_test_cases _ = []"

text \<open>
  The loop over \<open>possible_keys\<close> of \<open>_extract_test_cases\<close>: the variable
  \<open>test_cases\<close> starts as \<open>[]\<close> and takes the value of the first key that is in the
  dict with a list for its value, where the loop breaks.
  \<^verbatim>\<open>
  possible_keys = ['test_cases', 'cases', 'testCases', 'testcases', 'items']
  for key in possible_keys:
      if key in data and isinstance(data[key], list):
          test_cases = data[key]
          break
  \<close>
\<close>

definition possible_keys :: "string list" where
  "possible_keys = [''test_cases'', ''cases'', ''testCases'', ''testcases'', ''items'']"

fun keyed_search :: "pydict \<Rightarrow> string list \<Rightarrow> json list" where
  "keyed_search d [] = []"
| "keyed_search d (key # keys) =
     (case map_of d key of
        Some (JList xs) \<Rightarrow> xs
      | _ \<Rightarrow> keyed_search d keys)"

text \<open>
  \<^verbatim>\<open>
  def _extract_test_cases(self, data):
      test_cases = []
      if isinstance(data, list):
          test_cases = data
      elif isinstance(data, dict):
          ... the loop ...
          if not test_cases:
              test_cases = self._deep_search_test_cases(data)
      return test_cases
  \<close>
\<close>

definition extract_test_cases :: "json \<Rightarrow> json list" where
  "extract_test_cases data =
     (case data of
        JList xs \<Rightarrow> xs
      | JDict d \<Rightarrow>
          (let test_cases = keyed_search d possible_keys
           in if test_cases = [] then deep_search_test_cases (JDict d) else test_cases)
      | _ \<Rightarrow> [])"

subsection \<open>Text\<close>

text \<open>
  \<open>str(n)\<close> for an \<open>int\<close> (\<open>decimal\<close> gives the digits of a natural number,
  \<open>str_int\<close> puts the sign before them), the line feed, and \<open>sep.join(lines)\<close>.
\<close>

fun decimal :: "nat \<Rightarrow> string" where
  "decimal n =
     (if n < 10 then [''0123456789'' ! n]
      else decimal (n div 10) @ [''0123456789'' ! (n mod 10)])"

declare decimal.simps [simp del]

definition str_int :: "int \<Rightarrow> string" where
  "str_int i = (if 0 \<le> i then decimal (nat i) else CHR ''-'' # decimal (nat (- i)))"

definition newline :: string where
  "newline = [CHR 0x0A]"

fun join :: "string \<Rightarrow> string list \<Rightarrow> string" where
  "join sep [] = []"
| "join sep [x] = x"
| "join sep (x # y # ys) = x @ sep @ join sep (y # ys)"

text \<open>
  \<open>repr(v)\<close> and \<open>str(v)\<close>, which an f-string applies to a value it prints. They
  differ on a string only: \<open>str\<close> gives the string itself and \<open>repr\<close> quotes and
  escapes it. The quoting is Python's own (it chooses the quote and escapes by the
  characters of the string), so it is the parameter \<open>q\<close>.
\<close>

fun py_repr :: "(string \<Rightarrow> string) \<Rightarrow> json \<Rightarrow> string" where
  "py_repr q JNull = ''None''"
| "py_repr q (JBool b) = (if b then ''True'' else ''False'')"
| "py_repr q (JInt i) = str_int i"
| "py_repr q (JFloat r) = r"
| "py_repr q (JStr s) = q s"
| "py_repr q (JList xs) = ''['' @ join '', '' (map (py_repr q) xs) @ '']''"
| "py_repr q (JDict d) =
     ''{'' @ join '', '' (map (\<lambda>kv. q (fst kv) @ '': '' @ py_repr q (snd kv)) d) @ ''}''"

definition py_str :: "(string \<Rightarrow> string) \<Rightarrow> json \<Rightarrow> string" where
  "py_str q v = (case v of JStr s \<Rightarrow> s | _ \<Rightarrow> py_repr q v)"

subsection \<open>Formatting the structured fields\<close>

text \<open>
  \<^verbatim>\<open>
  def _format_steps(self, steps):
      if isinstance(steps, list):
          formatted = []
          for i, step in enumerate(steps, 1):
              if isinstance(step, dict):
                  action = step.get('action', step.get('step', ''))
                  formatted.append(f"{i}. {action}")
              elif isinstance(step, str):
                  formatted.append(f"{i}. {step}")
          return '\n'.join(formatted)
      elif isinstance(steps, str):
          return steps
      return ''
  \<close>
  \<open>steps_lines q i steps\<close> is the list \<open>formatted\<close> that the loop builds when
  \<open>enumerate\<close> starts counting at \<open>i\<close>.
\<close>

fun steps_lines :: "(string \<Rightarrow> string) \<Rightarrow> nat \<Rightarrow> json list \<Rightarrow> string list" where
  "steps_lines q i [] = []"
| "steps_lines q i (step # steps) =
     (case step of
        JDict d \<Rightarrow>
          [decimal i @ ''. '' @
             py_str q (dict_get d ''action'' (dict_get d ''step'' (JStr '''')))]
      | JStr s \<Rightarrow> [decimal i @ ''. '' @ s]
      | _ \<Rightarrow> [])
     @ steps_lines q (i + 1) steps"

definition format_steps :: "(string \<Rightarrow> string) \<Rightarrow> json \<Rightarrow> string" where
  "format_steps q steps =
     (case steps of
        JList xs \<Rightarrow> join newline (steps_lines q 1 xs)
      | JStr s \<Rightarrow> s
      | _ \<Rightarrow> '''')"

text \<open>
  \<^verbatim>\<open>
  def _format_expected(self, expected):
      if isinstance(expected, list):
          return '\n'.join([f"{i + 1}. {exp}" for i, exp in enumerate(expected)])
      elif isinstance(expected, str):
          return expected
      return ''
  \<close>
\<close>

definition format_expected :: "(string \<Rightarrow> string) \<Rightarrow> json \<Rightarrow> string" where
  "format_expected q expected =
     (case expected of
        JList xs \<Rightarrow>
          join newline
            (map (\<lambda>(i, exp). decimal (i + 1) @ ''. '' @ py_str q exp) (enumerate 0 xs))
      | JStr s \<Rightarrow> s
      | _ \<Rightarrow> '''')"

text \<open>
  \<^verbatim>\<open>
  def _format_test_data(self, test_data):
      if isinstance(test_data, dict):
          return '\n'.join([f"{k}: {v}" for k, v in test_data.items()])
      elif isinstance(test_data, str):
          return test_data
      return ''
  \<close>
\<close>

definition format_test_data :: "(string \<Rightarrow> string) \<Rightarrow> json \<Rightarrow> string" where
  "format_test_data q test_data =
     (case test_data of
        JDict d \<Rightarrow> join newline (map (\<lambda>(k, v). k @ '': '' @ py_str q v) d)
      | JStr s \<Rightarrow> s
      | _ \<Rightarrow> '''')"

subsection \<open>Row projection\<close>

text \<open>
  The column labels and the default status are Chinese text in the source; here they
  are their UTF-8 bytes. In the order of the row: case ID, case name, module, priority,
  preconditions, test steps, expected result, test data, status, author, creation
  time, remarks; the default status reads "not executed".
\<close>

definition label_id :: string where
  "label_id =
     [CHR 0xE7, CHR 0x94, CHR 0xA8, CHR 0xE4, CHR 0xBE, CHR 0x8B] @ ''ID''"

definition label_name :: string where
  "label_name =
     [CHR 0xE7, CHR 0x94, CHR 0xA8, CHR 0xE4, CHR 0xBE, CHR 0x8B,
      CHR 0xE5, CHR 0x90, CHR 0x8D, CHR 0xE7, CHR 0xA7, CHR 0xB0]"

definition label_module :: string where
  "label_module =
     [CHR 0xE6, CHR 0xA8, CHR 0xA1, CHR 0xE5, CHR 0x9D, CHR 0x97]"

definition label_priority :: string where
  "label_priority =
     [CHR 0xE4, CHR 0xBC, CHR 0x98, CHR 0xE5, CHR 0x85, CHR 0x88,
      CHR 0xE7, CHR 0xBA, CHR 0xA7]"

definition label_preconditions :: string where
  "label_preconditions =
     [CHR 0xE5, CHR 0x89, CHR 0x8D, CHR 0xE7, CHR 0xBD, CHR 0xAE,
      CHR 0xE6, CHR 0x9D, CHR 0xA1, CHR 0xE4, CHR 0xBB, CHR 0xB6]"

definition label_steps :: string where
  "label_steps =
     [CHR 0xE6, CHR 0xB5, CHR 0x8B, CHR 0xE8, CHR 0xAF, CHR 0x95,
      CHR 0xE6, CHR 0xAD, CHR 0xA5, CHR 0xE9, CHR 0xAA, CHR 0xA4]"

definition label_expected :: string where
  "label_expected =
     [CHR 0xE9, CHR 0xA2, CHR 0x84, CHR 0xE6, CHR 0x9C, CHR 0x9F,
      CHR 0xE7, CHR 0xBB, CHR 0x93, CHR 0xE6, CHR 0x9E, CHR 0x9C]"

definition label_test_data :: string where
  "label_test_data =
     [CHR 0xE6, CHR 0xB5, CHR 0x8B, CHR 0xE8, CHR 0xAF, CHR 0x95,
      CHR 0xE6, CHR 0x95, CHR 0xB0, CHR 0xE6, CHR 0x8D, CHR 0xAE]"

definition label_status :: string where
  "label_status =
     [CHR 0xE7, CHR 0x8A, CHR 0xB6, CHR 0xE6, CHR 0x80, CHR 0x81]"

definition label_author :: string where
  "label_author =
     [CHR 0xE5, CHR 0x88, CHR 0x9B, CHR 0xE5, CHR 0xBB, CHR 0xBA,
      CHR 0xE4, CHR 0xBA, CHR 0xBA]"

definition label_created :: string where
  "label_created =
     [CHR 0xE5, CHR 0x88, CHR 0x9B, CHR 0xE5, CHR 0xBB, CHR 0xBA,
      CHR 0xE6, CHR 0x97, CHR 0xB6, CHR 0xE9, CHR 0x97, CHR 0xB4]"

definition label_remarks :: string where
  "label_remarks =
     [CHR 0xE5, CHR 0xA4, CHR 0x87, CHR 0xE6, CHR 0xB3, CHR 0xA8]"

definition status_not_executed :: string where
  "status_not_executed =
     [CHR 0xE6, CHR 0x9C, CHR 0xAA, CHR 0xE6, CHR 0x89, CHR 0xA7,
      CHR 0xE8, CHR 0xA1, CHR 0x8C]"

definition column_labels :: "string list" where
  "column_labels =
     [label_id, label_name, label_module, label_priority, label_preconditions, label_steps,
      label_expected, label_test_data, label_status, label_author, label_created,
      label_remarks]"

text \<open>
  An exception is its class and the text \<open>str(e)\<close> gives. \<open>obj.get\<close> on a value
  that is not a dict raises \<open>AttributeError\<close>: none of the other types \<open>json.loads\<close>
  returns has an attribute \<open>get\<close>.
\<close>

datatype py_exception = PyException (exc_class: string) (exc_str: string)

fun type_name :: "json \<Rightarrow> string" where
  "type_name JNull = ''NoneType''"
| "type_name (JBool _) = ''bool''"
| "type_name (JInt _) = ''int''"
| "type_name (JFloat _) = ''float''"
| "type_name (JStr _) = ''str''"
| "type_name (JList _) = ''list''"
| "type_name (JDict _) = ''dict''"

definition no_attribute :: "json \<Rightarrow> string \<Rightarrow> py_exception" where
  "no_attribute v attr =
     PyException ''AttributeError''
       ([CHR 0x27] @ type_name v @ [CHR 0x27] @ '' object has no attribute '' @
        [CHR 0x27] @ attr @ [CHR 0x27])"

text \<open>
  \<^verbatim>\<open>
  def _prepare_test_case_row(self, test_case):
      row = {
          label_id: test_case.get('id', test_case.get('case_id', '')),
          label_name: test_case.get('title', test_case.get('name', '')),
          label_module: test_case.get('module', test_case.get('category', '')),
          label_priority: test_case.get('priority', ''),
          label_preconditions: test_case.get('preconditions', ''),
          label_steps: self._format_steps(test_case.get('steps', [])),
          label_expected: self._format_expected(test_case.get('expected', '')),
          label_test_data: self._format_test_data(test_case.get('test_data', {})),
          label_status: test_case.get('status', status_not_executed),
          label_author: test_case.get('author', ''),
          label_created: test_case.get('created_date', ''),
          label_remarks: test_case.get('remarks', '')
      }
      return row
  \<close>
  The first \<open>test_case.get\<close> raises when \<open>test_case\<close> is not a dict.
\<close>

fun prepare_test_case_row :: "(string \<Rightarrow> string) \<Rightarrow> json \<Rightarrow> py_exception + pydict" where
  "prepare_test_case_row q (JDict test_case) = Inr
     [(label_id, dict_get test_case ''id'' (dict_get test_case ''case_id'' (JStr ''''))),
      (label_name, dict_get test_case ''title'' (dict_get test_case ''name'' (JStr ''''))),
      (label_module, dict_get test_case ''module'' (dict_get test_case ''category'' (JStr ''''))),
      (label_priority, dict_get test_case ''priority'' (JStr '''')),
      (label_preconditions, dict_get test_case ''preconditions'' (JStr '''')),
      (label_steps, JStr (format_steps q (dict_get test_case ''steps'' (JList [])))),
      (label_expected, JStr (format_expected q (dict_get test_case ''expected'' (JStr '''')))),
      (label_test_data, JStr (format_test_data q (dict_get test_case ''test_data'' (JDict [])))),
      (label_status, dict_get test_case ''status'' (JStr status_not_executed)),
      (label_author, dict_get test_case ''author'' (JStr '''')),
      (label_created, dict_get test_case ''created_date'' (JStr '''')),
      (label_remarks, dict_get test_case ''remarks'' (JStr ''''))]"
| "prepare_test_case_row q test_case = Inl (no_attribute test_case ''get'')"

text \<open>
  The loop of \<open>_generate_excel\<close> and \<open>_generate_csv\<close> that projects the cases in
  order; the first exception ends it.
  \<^verbatim>\<open>
  rows = []
  for case in test_cases:
      row = self._prepare_test_case_row(case)
      rows.append(row)
  \<close>
\<close>

fun prepare_rows :: "(string \<Rightarrow> string) \<Rightarrow> json list \<Rightarrow> py_exception + pydict list" where
  "prepare_rows q [] = Inr []"
| "prepare_rows q (c # cs) =
     (case prepare_test_case_row q c of
        Inl e \<Rightarrow> Inl e
      | Inr row \<Rightarrow>
          (case prepare_rows q cs of
             Inl e \<Rightarrow> Inl e
           | Inr rows \<Rightarrow> Inr (row # rows)))"

subsection \<open>The entry point\<close>

text \<open>
  What the tool calls and does not define: the file system, the \<open>json\<close> module,
  Python's quoting of a string, \<open>pandas\<close> and \<open>openpyxl\<close>, and the clock. Each call
  that can raise returns the exception on the left.
  \<^item> \<open>path_exists\<close> is \<open>os.path.exists\<close>;
  \<^item> \<open>load_file\<close> is \<open>open(path, 'r', encoding='utf-8')\<close> followed by \<open>json.load\<close>;
  \<^item> \<open>json_loads\<close> is \<open>json.loads\<close>;
  \<^item> \<open>repr_str\<close> is \<open>repr\<close> on a \<open>str\<close>;
  \<^item> \<open>excel_writer\<close> builds the \<open>DataFrame\<close> of the rows, writes it to a workbook
    (styled when its second argument is truthy) and gives the workbook in base64;
  \<^item> \<open>excel_preview\<close> is \<open>_generate_preview\<close> on that \<open>DataFrame\<close>;
  \<^item> \<open>csv_writer\<close> builds the \<open>DataFrame\<close> and gives \<open>to_csv\<close> of it,
    \<open>csv_preview\<close> gives \<open>head().to_string()\<close>;
  \<^item> \<open>now_isoformat\<close> is \<open>datetime.now().isoformat()\<close>.
\<close>

record environment =
  path_exists :: "string \<Rightarrow> bool"
  load_file :: "string \<Rightarrow> py_exception + json"
  json_loads :: "string \<Rightarrow> py_exception + json"
  repr_str :: "string \<Rightarrow> string"
  excel_writer :: "pydict list \<Rightarrow> json \<Rightarrow> py_exception + string"
  excel_preview :: "pydict list \<Rightarrow> py_exception + string"
  csv_writer :: "pydict list \<Rightarrow> py_exception + string"
  csv_preview :: "pydict list \<Rightarrow> py_exception + string"
  now_isoformat :: string

text \<open>
  \<^verbatim>\<open>
  def _parse_json_input(self, json_input):
      if os.path.exists(json_input):
          with open(json_input, 'r', encoding='utf-8') as f:
              return json.load(f)
      return json.loads(json_input)
  \<close>
\<close>

definition parse_json_input :: "environment \<Rightarrow> string \<Rightarrow> py_exception + json" where
  "parse_json_input env json_input =
     (if path_exists env json_input then load_file env json_input
      else json_loads env json_input)"

text \<open>
  \<open>_generate_excel\<close> and \<open>_generate_csv\<close>: the rows, then the writer, then the dict of
  the result.
\<close>

definition generate_excel ::
  "environment \<Rightarrow> json list \<Rightarrow> json \<Rightarrow> json \<Rightarrow> py_exception + pydict" where
  "generate_excel env test_cases filename include_styling =
     (case prepare_rows (repr_str env) test_cases of
        Inl e \<Rightarrow> Inl e
      | Inr rows \<Rightarrow>
          (case excel_writer env rows include_styling of
             Inl e \<Rightarrow> Inl e
           | Inr excel_data \<Rightarrow>
               (case excel_preview env rows of
                  Inl e \<Rightarrow> Inl e
                | Inr preview \<Rightarrow> Inr
                    [(''file_content'', JStr excel_data),
                     (''filename'', JStr (py_str (repr_str env) filename @ ''.xlsx'')),
                     (''file_type'', JStr
                        ''application/vnd.openxmlformats-officedocument.spreadsheetml.sheet''),
                     (''download_url'', JNull),
                     (''preview'', JStr preview)])))"

definition generate_csv :: "environment \<Rightarrow> json list \<Rightarrow> json \<Rightarrow> py_exception + pydict" where
  "generate_csv env test_cases filename =
     (case prepare_rows (repr_str env) test_cases of
        Inl e \<Rightarrow> Inl e
      | Inr rows \<Rightarrow>
          (case csv_writer env rows of
             Inl e \<Rightarrow> Inl e
           | Inr csv_data \<Rightarrow>
               (case csv_preview env rows of
                  Inl e \<Rightarrow> Inl e
                | Inr preview \<Rightarrow> Inr
                    [(''file_content'', JStr csv_data),
                     (''filename'', JStr (py_str (repr_str env) filename @ ''.csv'')),
                     (''file_type'', JStr ''text/csv''),
                     (''preview'', JStr preview)])))"

text \<open>
  The messages of the result, Chinese in the source, as UTF-8 bytes: "conversion
  failed", and "converted " and " test cases" around the count.
\<close>

definition message_failed :: string where
  "message_failed =
     [CHR 0xE8, CHR 0xBD, CHR 0xAC, CHR 0xE6, CHR 0x8D, CHR 0xA2,
      CHR 0xE5, CHR 0xA4, CHR 0xB1, CHR 0xE8, CHR 0xB4, CHR 0xA5]"

definition message_converted :: string where
  "message_converted =
     [CHR 0xE6, CHR 0x88, CHR 0x90, CHR 0xE5, CHR 0x8A, CHR 0x9F,
      CHR 0xE8, CHR 0xBD, CHR 0xAC, CHR 0xE6, CHR 0x8D, CHR 0xA2,
      CHR 0x20]"

definition message_cases :: string where
  "message_cases =
     [CHR 0x20, CHR 0xE4, CHR 0xB8, CHR 0xAA, CHR 0xE6, CHR 0xB5,
      CHR 0x8B, CHR 0xE8, CHR 0xAF, CHR 0x95, CHR 0xE7, CHR 0x94,
      CHR 0xA8, CHR 0xE4, CHR 0xBE, CHR 0x8B]"

text \<open>
  \<^verbatim>\<open>
  def run(self, json_input, **kwargs):
      try:
          output_format = kwargs.get('output_format', 'excel')
          include_styling = kwargs.get('include_styling', True)
          filename = kwargs.get('filename', 'test_cases')
          data = self._parse_json_input(json_input)
          test_cases = self._extract_test_cases(data)
          if output_format == 'excel':
              result = self._generate_excel(test_cases, filename, include_styling)
          else:
              result = self._generate_csv(test_cases, filename)
          return {"success": True, "data": result,
                  "message": f"{message_converted}{len(test_cases)}{message_cases}",
                  "metadata": {"test_case_count": len(test_cases),
                               "output_format": output_format,
                               "generated_at": datetime.now().isoformat()}}
      except Exception as e:
          return {"success": False, "error": str(e), "message": message_failed}
  \<close>
  \<open>run_body\<close> is the block under \<open>try\<close>, \<open>run\<close> the whole function.
\<close>

definition run_body :: "environment \<Rightarrow> string \<Rightarrow> pydict \<Rightarrow> py_exception + pydict" where
  "run_body env json_input kwargs =
     (let output_format = dict_get kwargs ''output_format'' (JStr ''excel'');
          include_styling = dict_get kwargs ''include_styling'' (JBool True);
          filename = dict_get kwargs ''filename'' (JStr ''test_cases'')
      in case parse_json_input env json_input of
           Inl e \<Rightarrow> Inl e
         | Inr data \<Rightarrow>
             (let test_cases = extract_test_cases data
              in case (if output_format = JStr ''excel''
                       then generate_excel env test_cases filename include_styling
                       else generate_csv env test_cases filename) of
                   Inl e \<Rightarrow> Inl e
                 | Inr result \<Rightarrow> Inr
                     [(''success'', JBool True),
                      (''data'', JDict result),
                      (''message'', JStr
                         (message_converted @ decimal (length test_cases) @ message_cases)),
                      (''metadata'', JDict
                         [(''test_case_count'', JInt (int (length test_cases))),
                          (''output_format'', output_format),
                          (''generated_at'', JStr (now_isoformat env))])]))"

definition run :: "environment \<Rightarrow> string \<Rightarrow> pydict \<Rightarrow> pydict" where
  "run env json_input kwargs =
     (case run_body env json_input kwargs of
        Inr result \<Rightarrow> result
      | Inl e \<Rightarrow>
          [(''success'', JBool False),
           (''error'', JStr (exc_str e)),
           (''message'', JStr message_failed)])"

subsection \<open>The specification's reading of the deep search and of a step\<close>

text \<open>
  The specification describes the deep search by what it collects: an object that has
  one of the indicator keys is collected and not entered; an object that has none is
  entered through its values; a list is entered through its elements; a scalar gives
  nothing. \<open>spec_collects v r\<close> says that the search from \<open>v\<close> collects \<open>r\<close>.
\<close>

inductive spec_collects :: "json \<Rightarrow> json \<Rightarrow> bool" where
  collect: "is_test_case d \<Longrightarrow> spec_collects (JDict d) (JDict d)"
| descend_dict:
    "\<not> is_test_case d \<Longrightarrow> (k, v) \<in> set d \<Longrightarrow> spec_collects v r \<Longrightarrow> spec_collects (JDict d) r"
| descend_list: "v \<in> set xs \<Longrightarrow> spec_collects v r \<Longrightarrow> spec_collects (JList xs) r"

code_pred spec_collects .

text \<open>
  What one step contributes to its line, in the specification's words: a dict its
  \<open>action\<close> field, or failing that its \<open>step\<close> field, or failing that nothing; a
  string itself.
\<close>

fun step_text :: "(string \<Rightarrow> string) \<Rightarrow> json \<Rightarrow> string" where
  "step_text q (JDict d) =
     py_str q (case map_of d ''action'' of
                 Some a \<Rightarrow> a
               | None \<Rightarrow> (case map_of d ''step'' of Some s \<Rightarrow> s | None \<Rightarrow> JStr ''''))"
| "step_text q (JStr s) = s"
| "step_text q _ = ''''"

subsection \<open>A sample environment\<close>

text \<open>
  An environment to run the entry point in: no path exists, the parser knows the texts
  of two lists and rejects every other text with the message \<open>json.loads\<close> gives for
  a text that starts with \<open>{not json\<close> or for one that holds no value, and the
  writers succeed.
\<close>

definition sample_environment :: environment where
  "sample_environment =
     \<lparr>path_exists = (\<lambda>p. False),
      load_file = (\<lambda>p. Inl (PyException ''FileNotFoundError'' p)),
      json_loads = (\<lambda>s.
        if s = ''[{}, 7]'' then Inr (JList [JDict [], JInt 7])
        else if s = ''[{}, {}]'' then Inr (JList [JDict [], JDict []])
        else if s = ''{not json''
        then Inl (PyException ''JSONDecodeError''
          ''Expecting property name enclosed in double quotes: line 1 column 2 (char 1)'')
        else Inl (PyException ''JSONDecodeError'' ''Expecting value: line 1 column 1 (char 0)'')),
      repr_str = (\<lambda>s. [CHR 0x27] @ s @ [CHR 0x27]),
      excel_writer = (\<lambda>rows styled. Inr ''UEsDBA==''),
      excel_preview = (\<lambda>rows. Inr ''''),
      csv_writer = (\<lambda>rows. Inr ''''),
      csv_preview = (\<lambda>rows. Inr ''''),
      now_isoformat = ''2024-01-01T00:00:00''\<rparr>"

section \<open>Properties\<close>

lemmas label_defs =
  label_id_def label_name_def label_module_def label_priority_def label_preconditions_def
  label_steps_def label_expected_def label_test_data_def label_status_def label_author_def
  label_created_def label_remarks_def

subsection \<open>Extraction\<close>

lemma extract_keyed_nonempty:
  "keyed_search d possible_keys \<noteq> [] \<Longrightarrow>
     extract_test_cases (JDict d) = keyed_search d possible_keys"
  by (simp add: extract_test_cases_def)

text \<open>
  C1. An object whose \<open>test_cases\<close> key holds a list should give exactly that list,
  with no deep search, the empty list included. The code tests \<open>not test_cases\<close> after
  the loop, which is true both when no key was found and when the list found is empty,
  so on an empty list the deep search runs on the whole document. Here the document
  \<open>{"name": "suite", "test_cases": []}\<close> has the indicator key \<open>name\<close>, and the
  extraction returns the document itself as its one record, not the empty list.
\<close>

theorem extract_empty_test_cases_searches:
  "wf_json (JDict [(''name'', JStr ''suite''), (''test_cases'', JList [])])
   \<and> keyed_search [(''name'', JStr ''suite''), (''test_cases'', JList [])] possible_keys = []
   \<and> extract_test_cases (JDict [(''name'', JStr ''suite''), (''test_cases'', JList [])]) =
       [JDict [(''name'', JStr ''suite''), (''test_cases'', JList [])]]"
  by (simp add: extract_test_cases_def possible_keys_def is_test_case_def
      test_case_indicators_def has_key_def)

lemma keyed_search_first:
  "key \<in> set keys \<Longrightarrow> map_of d key = Some (JList xs) \<Longrightarrow>
   \<forall>k \<in> set (takeWhile (\<lambda>k. k \<noteq> key) keys). \<not> (\<exists>ys. map_of d k = Some (JList ys)) \<Longrightarrow>
   keyed_search d keys = xs"
proof (induction keys)
  case Nil
  then show ?case by simp
next
  case (Cons a keys)
  show ?case
  proof (cases "a = key")
    case True
    with Cons.prems show ?thesis by simp
  next
    case False
    with Cons.prems have "\<not> (\<exists>ys. map_of d a = Some (JList ys))" by simp
    then have "keyed_search d (a # keys) = keyed_search d keys"
      by (simp split: option.splits json.splits)
    moreover have "keyed_search d keys = xs"
      using Cons.IH Cons.prems False by simp
    ultimately show ?thesis by simp
  qed
qed

text \<open>
  C5, as stated, fails: an object that maps \<open>cases\<close> and \<open>items\<close> to lists can also
  map \<open>test_cases\<close> to a list, and then the loop selects the \<open>test_cases\<close> list, which
  comes first in the declared order, and not the \<open>cases\<close> list.
\<close>

theorem keyed_search_priority_counterexample:
  "wf_json (JDict [(''test_cases'', JList [JStr ''t'']), (''cases'', JList [JStr ''c'']),
           (''items'', JList [JStr ''i''])])
   \<and> map_of [(''test_cases'', JList [JStr ''t'']), (''cases'', JList [JStr ''c'']),
           (''items'', JList [JStr ''i''])] ''cases'' = Some (JList [JStr ''c''])
   \<and> map_of [(''test_cases'', JList [JStr ''t'']), (''cases'', JList [JStr ''c'']),
           (''items'', JList [JStr ''i''])] ''items'' = Some (JList [JStr ''i''])
   \<and> keyed_search [(''test_cases'', JList [JStr ''t'']), (''cases'', JList [JStr ''c'']),
           (''items'', JList [JStr ''i''])] possible_keys = [JStr ''t'']
   \<and> extract_test_cases (JDict [(''test_cases'', JList [JStr ''t'']),
           (''cases'', JList [JStr ''c'']), (''items'', JList [JStr ''i''])]) = [JStr ''t'']
   \<and> [JStr ''t''] \<noteq> [JStr ''c'']"
  by (simp add: extract_test_cases_def possible_keys_def)

text \<open>
  C5, amended. The loop checks the keys \<open>test_cases\<close>, \<open>cases\<close>, \<open>testCases\<close>,
  \<open>testcases\<close>, \<open>items\<close> in this order and selects the list of the first key that is
  present with a list for its value: a key of \<open>possible_keys\<close> whose value is a list
  is selected when no key before it in the order has a list. In particular, in an
  object that maps both \<open>cases\<close> and \<open>items\<close> to lists and does not map \<open>test_cases\<close>
  to a list, the loop selects the \<open>cases\<close> list, and a \<open>cases\<close> list that is not
  empty is what the extraction returns.
\<close>

theorem keyed_search_priority:
  "(key \<in> set possible_keys \<and> map_of d key = Some (JList xs) \<and>
    (\<forall>k \<in> set (takeWhile (\<lambda>k. k \<noteq> key) possible_keys).
        \<not> (\<exists>zs. map_of d k = Some (JList zs)))
    \<longrightarrow> keyed_search d possible_keys = xs)
   \<and> (map_of d ''cases'' = Some (JList cs) \<and> map_of d ''items'' = Some (JList ys) \<and>
      \<not> (\<exists>zs. map_of d ''test_cases'' = Some (JList zs))
      \<longrightarrow> keyed_search d possible_keys = cs \<and>
          (cs \<noteq> [] \<longrightarrow> extract_test_cases (JDict d) = cs))"
proof (intro conjI impI)
  assume "key \<in> set possible_keys \<and> map_of d key = Some (JList xs) \<and>
    (\<forall>k \<in> set (takeWhile (\<lambda>k. k \<noteq> key) possible_keys).
        \<not> (\<exists>zs. map_of d k = Some (JList zs)))"
  then show "keyed_search d possible_keys = xs"
    using keyed_search_first by blast
next
  assume a: "map_of d ''cases'' = Some (JList cs) \<and> map_of d ''items'' = Some (JList ys) \<and>
      \<not> (\<exists>zs. map_of d ''test_cases'' = Some (JList zs))"
  then have "\<forall>k \<in> set (takeWhile (\<lambda>k. k \<noteq> ''cases'') possible_keys).
        \<not> (\<exists>zs. map_of d k = Some (JList zs))"
    by (simp add: possible_keys_def)
  moreover have "''cases'' \<in> set possible_keys" by (simp add: possible_keys_def)
  ultimately show k: "keyed_search d possible_keys = cs"
    using a keyed_search_first by blast
  show "extract_test_cases (JDict d) = cs" if "cs \<noteq> []"
    using that k extract_keyed_nonempty by simp
qed

theorem keyed_search_priority_witness:
  "keyed_search [(''items'', JList [JStr ''i'']), (''cases'', JList [JStr ''c''])] possible_keys
     = [JStr ''c'']
   \<and> extract_test_cases (JDict [(''items'', JList [JStr ''i'']), (''cases'', JList [JStr ''c''])])
     = [JStr ''c'']
   \<and> keyed_search [(''testcases'', JList [JStr ''x'']), (''items'', JList [])] possible_keys
     = [JStr ''x'']"
  using keyed_search_priority [of "''cases''"
      "[(''items'', JList [JStr ''i'']), (''cases'', JList [JStr ''c''])]"
      "[JStr ''c'']" "[JStr ''c'']" "[JStr ''i'']"]
    keyed_search_priority [of "''testcases''"
      "[(''testcases'', JList [JStr ''x'']), (''items'', JList [])]" "[JStr ''x'']"]
  by (simp add: possible_keys_def)

subsection \<open>The deep search\<close>

lemma is_test_case_iff:
  "is_test_case d \<longleftrightarrow>
     (\<exists>k \<in> {''id'', ''case_id'', ''title'', ''name'', ''steps''}. k \<in> fst ` set d)"
  by (auto simp: is_test_case_def test_case_indicators_def has_key_def map_of_eq_None_iff)

lemma deep_search_sound: "r \<in> set (deep_search_test_cases v) \<Longrightarrow> spec_collects v r"
proof (induction v arbitrary: r rule: deep_search_test_cases.induct)
  case (1 d)
  then show ?case by (auto split: if_splits intro: spec_collects.intros)
next
  case (2 xs)
  then show ?case by (auto intro: spec_collects.intros)
qed simp_all

lemma deep_search_complete: "spec_collects v r \<Longrightarrow> r \<in> set (deep_search_test_cases v)"
  by (induction rule: spec_collects.induct) force+

text \<open>
  C2. The deep search takes an object for a record exactly when one of the keys
  \<open>id\<close>, \<open>case_id\<close>, \<open>title\<close>, \<open>name\<close>, \<open>steps\<close> is among its keys. What it returns
  is what the specification's relation collects: every such object that is reached
  through objects that are not records and through list elements, at any depth. An
  object taken for a record is returned alone, so nothing below it is searched. In
  particular an object with the key \<open>id\<close> under three wrappers that are not records is
  found.
\<close>

theorem deep_search_collects:
  "(is_test_case d \<longleftrightarrow>
      (\<exists>k \<in> {''id'', ''case_id'', ''title'', ''name'', ''steps''}. k \<in> fst ` set d))
   \<and> (r \<in> set (deep_search_test_cases v) \<longleftrightarrow> spec_collects v r)
   \<and> (is_test_case d \<longrightarrow> deep_search_test_cases (JDict d) = [JDict d])
   \<and> (\<not> is_test_case w1 \<and> (k1, JDict w2) \<in> set w1 \<and>
       \<not> is_test_case w2 \<and> (k2, JDict w3) \<in> set w2 \<and>
       \<not> is_test_case w3 \<and> (k3, JDict t) \<in> set w3 \<and> ''id'' \<in> fst ` set t
       \<longrightarrow> JDict t \<in> set (deep_search_test_cases (JDict w1)))"
proof (intro conjI impI)
  show "is_test_case d \<longleftrightarrow>
      (\<exists>k \<in> {''id'', ''case_id'', ''title'', ''name'', ''steps''}. k \<in> fst ` set d)"
    by (rule is_test_case_iff)
  show "r \<in> set (deep_search_test_cases v) \<longleftrightarrow> spec_collects v r"
    using deep_search_sound deep_search_complete by blast
  show "deep_search_test_cases (JDict d) = [JDict d]" if "is_test_case d"
    using that by simp
  assume a: "\<not> is_test_case w1 \<and> (k1, JDict w2) \<in> set w1 \<and>
       \<not> is_test_case w2 \<and> (k2, JDict w3) \<in> set w2 \<and>
       \<not> is_test_case w3 \<and> (k3, JDict t) \<in> set w3 \<and> ''id'' \<in> fst ` set t"
  then have "is_test_case t" by (simp add: is_test_case_iff)
  then have "spec_collects (JDict t) (JDict t)" by (rule spec_collects.collect)
  with a have "spec_collects (JDict w3) (JDict t)" by (blast intro: spec_collects.descend_dict)
  with a have "spec_collects (JDict w2) (JDict t)" by (blast intro: spec_collects.descend_dict)
  with a have "spec_collects (JDict w1) (JDict t)" by (blast intro: spec_collects.descend_dict)
  then show "JDict t \<in> set (deep_search_test_cases (JDict w1))" by (rule deep_search_complete)
qed

theorem deep_search_collects_witness:
  "JDict [(''id'', JInt 1), (''child'', JDict [(''id'', JInt 2)])]
     \<in> set (deep_search_test_cases
         (JDict [(''a'', JDict [(''b'', JDict [(''c'',
            JDict [(''id'', JInt 1), (''child'', JDict [(''id'', JInt 2)])])])])]))
   \<and> deep_search_test_cases (JDict [(''id'', JInt 1), (''child'', JDict [(''id'', JInt 2)])]) =
       [JDict [(''id'', JInt 1), (''child'', JDict [(''id'', JInt 2)])]]"
  using deep_search_collects [of "[(''id'', JInt 1), (''child'', JDict [(''id'', JInt 2)])]"
      "JDict [(''id'', JInt 1), (''child'', JDict [(''id'', JInt 2)])]"
      "JDict [(''a'', JDict [(''b'', JDict [(''c'',
            JDict [(''id'', JInt 1), (''child'', JDict [(''id'', JInt 2)])])])])]"
      "[(''a'', JDict [(''b'', JDict [(''c'',
            JDict [(''id'', JInt 1), (''child'', JDict [(''id'', JInt 2)])])])])]"
      "''a''" "[(''b'', JDict [(''c'',
            JDict [(''id'', JInt 1), (''child'', JDict [(''id'', JInt 2)])])])]"
      "''b''" "[(''c'', JDict [(''id'', JInt 1), (''child'', JDict [(''id'', JInt 2)])])]"
      "''c''" "[(''id'', JInt 1), (''child'', JDict [(''id'', JInt 2)])]"]
  by (simp add: is_test_case_def test_case_indicators_def has_key_def)

subsection \<open>Steps\<close>

lemma steps_lines_append:
  "steps_lines q i (xs @ ys) = steps_lines q i xs @ steps_lines q (i + length xs) ys"
  by (induction xs arbitrary: i) simp_all

lemma steps_lines_filter:
  "steps_lines q i xs =
     map (\<lambda>(n, step). decimal n @ ''. '' @ step_text q step)
       (filter (\<lambda>(n, step). is_dict step \<or> is_str step) (enumerate i xs))"
proof (induction xs arbitrary: i)
  case Nil
  then show ?case by simp
next
  case (Cons x xs)
  then show ?case
    by (cases x) (simp_all add: is_dict_def is_str_def dict_get_def split: option.splits)
qed

lemma steps_lines_enumerate:
  "\<forall>x \<in> set xs. is_dict x \<or> is_str x \<Longrightarrow>
   steps_lines q i xs =
     map (\<lambda>(n, step). decimal n @ ''. '' @ step_text q step) (enumerate i xs)"
  by (induction xs arbitrary: i)
     (auto simp: is_dict_def is_str_def dict_get_def split: json.splits option.splits)

text \<open>
  C4, as stated, fails: not every element of a list of steps becomes a line. The loop
  appends a line for a dict and for a string and has no branch for anything else, so
  the steps \<open>[null, "open page"]\<close> give the one line \<open>"2. open page"\<close> for two
  elements, and the steps \<open>[7]\<close> give no line at all.
\<close>

theorem format_steps_every_element_counterexample:
  "wf_json (JList [JNull, JStr ''open page''])
   \<and> steps_lines (\<lambda>s. s) 1 [JNull, JStr ''open page''] = [''2. open page'']
   \<and> length (steps_lines (\<lambda>s. s) 1 [JNull, JStr ''open page'']) \<noteq>
       length [JNull, JStr ''open page'']
   \<and> format_steps (\<lambda>s. s) (JList [JNull, JStr ''open page'']) = ''2. open page''
   \<and> format_steps (\<lambda>s. s) (JList [JInt 7]) = ''''"
  by (simp add: format_steps_def decimal.simps)

text \<open>
  C4, amended. For a list of steps, the text is the newline-joined list of the lines of
  its dict and string elements, each numbered by its position in the list counted from
  1; a dict contributes its \<open>action\<close> field, or failing that its \<open>step\<close> field, and a
  string contributes itself. When every element is a dict or a string, every element
  has its line: there are as many lines as elements, and line \<open>k\<close> is numbered
  \<open>k + 1\<close>. A string for the steps is returned as it is, and a value that is neither a
  list nor a string gives the empty string. A record whose steps are \<open>["open page",
  "click login"]\<close> has the Steps cell \<open>"1. open page\n2. click login"\<close>.
\<close>

theorem format_steps_shapes:
  "format_steps q (JList xs) =
     join newline
       (map (\<lambda>(n, step). decimal n @ ''. '' @ step_text q step)
          (filter (\<lambda>(n, step). is_dict step \<or> is_str step) (enumerate 1 xs)))
   \<and> ((\<forall>x \<in> set xs. is_dict x \<or> is_str x) \<longrightarrow>
        length (steps_lines q 1 xs) = length xs \<and>
        (\<forall>k < length xs.
           steps_lines q 1 xs ! k = decimal (k + 1) @ ''. '' @ step_text q (xs ! k)))
   \<and> format_steps q (JStr s) = s
   \<and> (\<not> is_list v \<and> \<not> is_str v \<longrightarrow> format_steps q v = '''')
   \<and> (map_of d ''steps'' = Some (JList [JStr ''open page'', JStr ''click login'']) \<longrightarrow>
        (\<exists>row. prepare_test_case_row q (JDict d) = Inr row \<and>
           map_of row label_steps =
             Some (JStr (''1. open page'' @ newline @ ''2. click login''))))"
proof (intro conjI impI allI)
  show "format_steps q (JList xs) =
     join newline
       (map (\<lambda>(n, step). decimal n @ ''. '' @ step_text q step)
          (filter (\<lambda>(n, step). is_dict step \<or> is_str step) (enumerate 1 xs)))"
    by (simp add: format_steps_def steps_lines_filter)
next
  assume "\<forall>x \<in> set xs. is_dict x \<or> is_str x"
  then show "length (steps_lines q 1 xs) = length xs"
    by (simp add: steps_lines_enumerate)
next
  fix k
  assume a: "\<forall>x \<in> set xs. is_dict x \<or> is_str x" and k: "k < length xs"
  from a have "steps_lines q 1 xs =
     map (\<lambda>(n, step). decimal n @ ''. '' @ step_text q step) (enumerate 1 xs)"
    by (rule steps_lines_enumerate)
  with k show "steps_lines q 1 xs ! k = decimal (k + 1) @ ''. '' @ step_text q (xs ! k)"
    by (simp add: nth_enumerate_eq)
next
  show "format_steps q (JStr s) = s" by (simp add: format_steps_def)
next
  assume "\<not> is_list v \<and> \<not> is_str v"
  then show "format_steps q v = ''''"
    by (cases v) (simp_all add: format_steps_def is_list_def is_str_def)
next
  assume "map_of d ''steps'' = Some (JList [JStr ''open page'', JStr ''click login''])"
  then have "format_steps q (dict_get d ''steps'' (JList [])) =
      ''1. open page'' @ newline @ ''2. click login''"
    by (simp add: dict_get_def format_steps_def decimal.simps)
  then show "\<exists>row. prepare_test_case_row q (JDict d) = Inr row \<and>
           map_of row label_steps =
             Some (JStr (''1. open page'' @ newline @ ''2. click login''))"
    by (simp add: label_defs)
qed

theorem format_steps_shapes_witness:
  "format_steps (\<lambda>s. s) (JList [JDict [(''action'', JStr ''open'')],
       JDict [(''step'', JInt 2)], JDict [], JStr ''done'']) =
     ''1. open'' @ newline @ ''2. 2'' @ newline @ ''3. '' @ newline @ ''4. done''
   \<and> length (steps_lines (\<lambda>s. s) 1 [JDict [(''action'', JStr ''open'')],
       JDict [(''step'', JInt 2)], JDict [], JStr ''done'']) = 4
   \<and> format_steps (\<lambda>s. s) (JInt 5) = ''''
   \<and> (\<exists>row. prepare_test_case_row (\<lambda>s. s)
           (JDict [(''steps'', JList [JStr ''open page'', JStr ''click login''])]) = Inr row \<and>
         map_of row label_steps = Some (JStr (''1. open page'' @ newline @ ''2. click login'')))"
proof -
  have all: "\<forall>x \<in> set [JDict [(''action'', JStr ''open'')],
       JDict [(''step'', JInt 2)], JDict [], JStr ''done'']. is_dict x \<or> is_str x"
    by (simp add: is_dict_def is_str_def)
  have other: "\<not> is_list (JInt 5) \<and> \<not> is_str (JInt 5)"
    by (simp add: is_list_def is_str_def)
  have steps: "map_of [(''steps'', JList [JStr ''open page'', JStr ''click login''])] ''steps'' =
      Some (JList [JStr ''open page'', JStr ''click login''])"
    by simp
  have out: "format_steps (\<lambda>s. s) (JList [JDict [(''action'', JStr ''open'')],
       JDict [(''step'', JInt 2)], JDict [], JStr ''done'']) =
     ''1. open'' @ newline @ ''2. 2'' @ newline @ ''3. '' @ newline @ ''4. done''"
    by (simp add: format_steps_def dict_get_def py_str_def str_int_def
        decimal.simps)
  note shapes = format_steps_shapes [of "\<lambda>s. s" "[JDict [(''action'', JStr ''open'')],
       JDict [(''step'', JInt 2)], JDict [], JStr ''done'']" "''as is''" "JInt 5"
       "[(''steps'', JList [JStr ''open page'', JStr ''click login''])]"]
  from shapes all have "length (steps_lines (\<lambda>s. s) 1 [JDict [(''action'', JStr ''open'')],
       JDict [(''step'', JInt 2)], JDict [], JStr ''done'']) =
       length [JDict [(''action'', JStr ''open'')],
       JDict [(''step'', JInt 2)], JDict [], JStr ''done'']"
    by blast
  then have len: "length (steps_lines (\<lambda>s. s) 1 [JDict [(''action'', JStr ''open'')],
       JDict [(''step'', JInt 2)], JDict [], JStr ''done'']) = 4"
    by simp
  from shapes other have none: "format_steps (\<lambda>s. s) (JInt 5) = ''''" by blast
  from shapes steps have "\<exists>row. prepare_test_case_row (\<lambda>s. s)
           (JDict [(''steps'', JList [JStr ''open page'', JStr ''click login''])]) = Inr row \<and>
         map_of row label_steps = Some (JStr (''1. open page'' @ newline @ ''2. click login''))"
    by blast
  with out len none show ?thesis by blast
qed

text \<open>
  C10. In a list of steps, an element that is neither a dict nor a string gives no
  line, and the numbering still counts it: the lines of the elements after it are
  numbered as if it had one. So \<open>["a", 7, "b"]\<close> gives \<open>"1. a\n3. b"\<close>.
\<close>

theorem steps_numbering_counts_skipped:
  "(\<not> is_dict x \<and> \<not> is_str x \<longrightarrow>
      steps_lines q i (xs @ x # ys) =
        steps_lines q i xs @ steps_lines q (i + length xs + 1) ys)
   \<and> format_steps q (JList [JStr ''a'', JInt 7, JStr ''b'']) = ''1. a'' @ newline @ ''3. b''"
proof (intro conjI impI)
  assume "\<not> is_dict x \<and> \<not> is_str x"
  then have "steps_lines q (i + length xs) (x # ys) = steps_lines q (i + length xs + 1) ys"
    by (cases x) (simp_all add: is_dict_def is_str_def)
  then show "steps_lines q i (xs @ x # ys) =
        steps_lines q i xs @ steps_lines q (i + length xs + 1) ys"
    by (simp add: steps_lines_append)
next
  show "format_steps q (JList [JStr ''a'', JInt 7, JStr ''b'']) = ''1. a'' @ newline @ ''3. b''"
    by (simp add: format_steps_def decimal.simps)
qed

theorem steps_numbering_counts_skipped_witness:
  "steps_lines (\<lambda>s. s) 1 [JStr ''a'', JNull, JStr ''b''] = [''1. a'', ''3. b'']"
  using steps_numbering_counts_skipped [of JNull "\<lambda>s. s" 1 "[JStr ''a'']" "[JStr ''b'']"]
  by (simp add: is_dict_def is_str_def decimal.simps)

subsection \<open>Rows\<close>

text \<open>
  C7, as stated, fails: the alternatives are chosen by which key is present, not by
  which value is non-empty. The record \<open>{"id": "", "case_id": "TC1", "status": ""}\<close>
  has a non-empty \<open>case_id\<close>, and its row has the empty string both in the ID cell and
  in the Status cell.
\<close>

theorem row_first_non_empty_counterexample:
  "wf_json (JDict [(''id'', JStr ''''), (''case_id'', JStr ''TC1''), (''status'', JStr '''')])
   \<and> prepare_test_case_row (\<lambda>s. s)
       (JDict [(''id'', JStr ''''), (''case_id'', JStr ''TC1''), (''status'', JStr '''')]) =
     Inr [(label_id, JStr ''''), (label_name, JStr ''''), (label_module, JStr ''''),
          (label_priority, JStr ''''), (label_preconditions, JStr ''''), (label_steps, JStr ''''),
          (label_expected, JStr ''''), (label_test_data, JStr ''''), (label_status, JStr ''''),
          (label_author, JStr ''''), (label_created, JStr ''''), (label_remarks, JStr '''')]"
  by (simp add: dict_get_def format_steps_def format_expected_def format_test_data_def)

text \<open>
  C7, amended. The columns with alternatives take the first alternative whose key is
  present: the ID cell is the \<open>id\<close> field when the record has the key \<open>id\<close>, else the
  \<open>case_id\<close> field when it has that key, else the empty string; the Name cell likewise
  from \<open>title\<close> then \<open>name\<close>, and the Module cell from \<open>module\<close> then \<open>category\<close>.
  The Status cell is the \<open>status\<close> field when the record has the key \<open>status\<close>, and
  the label "not executed" otherwise; that label is not the empty string, so a record
  with no \<open>status\<close> key never gets an empty Status cell.
\<close>

theorem row_first_present:
  "\<exists>row. prepare_test_case_row q (JDict d) = Inr row
     \<and> map_of row label_id = Some
         (case map_of d ''id'' of Some v \<Rightarrow> v
          | None \<Rightarrow> (case map_of d ''case_id'' of Some v \<Rightarrow> v | None \<Rightarrow> JStr ''''))
     \<and> map_of row label_name = Some
         (case map_of d ''title'' of Some v \<Rightarrow> v
          | None \<Rightarrow> (case map_of d ''name'' of Some v \<Rightarrow> v | None \<Rightarrow> JStr ''''))
     \<and> map_of row label_module = Some
         (case map_of d ''module'' of Some v \<Rightarrow> v
          | None \<Rightarrow> (case map_of d ''category'' of Some v \<Rightarrow> v | None \<Rightarrow> JStr ''''))
     \<and> map_of row label_status = Some
         (case map_of d ''status'' of Some v \<Rightarrow> v | None \<Rightarrow> JStr status_not_executed)
     \<and> (map_of d ''status'' = None \<longrightarrow>
          map_of row label_status = Some (JStr status_not_executed))
     \<and> status_not_executed \<noteq> ''''"
proof -
  have "status_not_executed \<noteq> ''''" by (simp add: status_not_executed_def)
  then show ?thesis by (simp add: label_defs dict_get_def)
qed

theorem row_first_present_witness:
  "\<exists>row. prepare_test_case_row (\<lambda>s. s)
       (JDict [(''case_id'', JStr ''TC1''), (''name'', JStr ''Login'')]) = Inr row
     \<and> map_of row label_id = Some (JStr ''TC1'')
     \<and> map_of row label_name = Some (JStr ''Login'')
     \<and> map_of row label_module = Some (JStr '''')
     \<and> map_of row label_status = Some (JStr status_not_executed)"
  using row_first_present [of "\<lambda>s. s" "[(''case_id'', JStr ''TC1''), (''name'', JStr ''Login'')]"]
  by (simp add: label_defs)

lemma prepare_row_labels:
  "prepare_test_case_row q c = Inr row \<Longrightarrow> map fst row = column_labels"
  by (cases c) (auto simp: column_labels_def)

lemma prepare_rows_labels:
  "prepare_rows q cs = Inr rows \<Longrightarrow> \<forall>row \<in> set rows. map fst row = column_labels"
proof (induction cs arbitrary: rows)
  case Nil
  then show ?case by simp
next
  case (Cons c cs)
  then show ?case
    by (auto split: sum.splits dest: prepare_row_labels)
qed

text \<open>
  C8. The row of a dict-shaped record has the twelve column labels, in their fixed
  order, whatever fields the record has; the labels are twelve different strings. So
  all the rows of one export, which \<open>prepare_rows\<close> builds, have the same columns in
  the same order.
\<close>

theorem row_columns_fixed:
  "(\<exists>row. prepare_test_case_row q (JDict d) = Inr row \<and> map fst row = column_labels)
   \<and> length column_labels = 12 \<and> distinct column_labels
   \<and> (prepare_rows q cs = Inr rows \<longrightarrow> (\<forall>row \<in> set rows. map fst row = column_labels))"
proof (intro conjI impI)
  show "\<exists>row. prepare_test_case_row q (JDict d) = Inr row \<and> map fst row = column_labels"
    by (simp add: column_labels_def)
  show "length column_labels = 12" by (simp add: column_labels_def)
  show "distinct column_labels" by (simp add: column_labels_def label_defs)
  show "\<forall>row \<in> set rows. map fst row = column_labels" if "prepare_rows q cs = Inr rows"
    using that by (rule prepare_rows_labels)
qed

theorem row_columns_fixed_witness:
  "\<exists>rows. prepare_rows (\<lambda>s. s) [JDict [(''id'', JInt 1)], JDict []] = Inr rows
      \<and> length rows = 2 \<and> list_all (\<lambda>row. map fst row = column_labels) rows"
proof -
  have "\<exists>rows. prepare_rows (\<lambda>s. s) [JDict [(''id'', JInt 1)], JDict []] = Inr rows
      \<and> length rows = 2"
    by simp
  then obtain rows where
    r: "prepare_rows (\<lambda>s. s) [JDict [(''id'', JInt 1)], JDict []] = Inr rows" "length rows = 2"
    by blast
  with row_columns_fixed [of "\<lambda>s. s" "[]" "[JDict [(''id'', JInt 1)], JDict []]" rows]
  have "\<forall>row \<in> set rows. map fst row = column_labels" by blast
  with r show ?thesis by (auto simp: list_all_iff)
qed

subsection \<open>The entry point\<close>

text \<open>
  Every \<open>raise\<close> of the embedding is a left value of \<open>run_body\<close>, the block under
  \<open>try\<close>; \<open>except Exception\<close> turns each into the failure dict. What Python raises
  outside the class \<open>Exception\<close> (a keyboard interrupt, an exit of the interpreter) and
  the limits of the machine are not part of the embedding.
\<close>

lemma run_failure:
  "run_body env s kw = Inl e \<Longrightarrow>
   run env s kw =
     [(''success'', JBool False), (''error'', JStr (exc_str e)), (''message'', JStr message_failed)]"
  by (simp add: run_def)

lemma run_body_parse_error:
  "parse_json_input env s = Inl e \<Longrightarrow> run_body env s kw = Inl e"
  by (simp add: run_body_def)

lemma run_body_rows_error:
  "parse_json_input env s = Inr data \<Longrightarrow>
   prepare_rows (repr_str env) (extract_test_cases data) = Inl e \<Longrightarrow>
   run_body env s kw = Inl e"
  by (simp add: run_body_def generate_excel_def generate_csv_def Let_def)

lemma run_body_success:
  "run_body env s kw = Inr result \<Longrightarrow>
   map_of result ''success'' = Some (JBool True) \<and> map_of result ''data'' \<noteq> None"
  by (auto simp: run_body_def Let_def split: sum.splits if_splits)

lemma run_success_iff:
  "map_of (run env s kw) ''success'' = Some (JBool False) \<longleftrightarrow> (\<exists>e. run_body env s kw = Inl e)"
proof (cases "run_body env s kw")
  case (Inl e)
  then show ?thesis by (simp add: run_failure)
next
  case (Inr result)
  then show ?thesis using run_body_success [OF Inr] by (simp add: run_def)
qed

lemma run_body_count:
  "parse_json_input env s = Inr data \<Longrightarrow> run_body env s kw = Inr result \<Longrightarrow>
   map_of result ''metadata'' = Some (JDict
     [(''test_case_count'', JInt (int (length (extract_test_cases data)))),
      (''output_format'', dict_get kw ''output_format'' (JStr ''excel'')),
      (''generated_at'', JStr (now_isoformat env))])"
  by (auto simp: run_body_def Let_def split: sum.splits if_splits)

text \<open>
  C6. When the input document is itself a list, extraction returns that list as it is:
  every element is a candidate record, none is filtered out, and the number of
  extracted records is the length of the list. It is the count that a successful run
  reports as \<open>test_case_count\<close>.
\<close>

theorem extract_bare_list:
  "extract_test_cases (JList xs) = xs \<and> length (extract_test_cases (JList xs)) = length xs
   \<and> (parse_json_input env s = Inr (JList xs) \<and>
       map_of (run env s kw) ''success'' = Some (JBool True)
       \<longrightarrow> map_of (run env s kw) ''metadata'' = Some (JDict
             [(''test_case_count'', JInt (int (length xs))),
              (''output_format'', dict_get kw ''output_format'' (JStr ''excel'')),
              (''generated_at'', JStr (now_isoformat env))]))"
proof (intro conjI impI)
  show "extract_test_cases (JList xs) = xs" by (simp add: extract_test_cases_def)
  show "length (extract_test_cases (JList xs)) = length xs" by (simp add: extract_test_cases_def)
  assume a: "parse_json_input env s = Inr (JList xs) \<and>
       map_of (run env s kw) ''success'' = Some (JBool True)"
  show "map_of (run env s kw) ''metadata'' = Some (JDict
             [(''test_case_count'', JInt (int (length xs))),
              (''output_format'', dict_get kw ''output_format'' (JStr ''excel'')),
              (''generated_at'', JStr (now_isoformat env))])"
  proof (cases "run_body env s kw")
    case (Inl e)
    then have "map_of (run env s kw) ''success'' = Some (JBool False)"
      by (simp add: run_failure)
    with a show ?thesis by simp
  next
    case (Inr result)
    then have "run env s kw = result" by (simp add: run_def)
    moreover from a Inr have "map_of result ''metadata'' = Some (JDict
     [(''test_case_count'', JInt (int (length (extract_test_cases (JList xs))))),
      (''output_format'', dict_get kw ''output_format'' (JStr ''excel'')),
      (''generated_at'', JStr (now_isoformat env))])"
      using run_body_count by blast
    ultimately show ?thesis by (simp add: extract_test_cases_def)
  qed
qed

theorem extract_bare_list_witness:
  "map_of (run sample_environment ''[{}, {}]'' []) ''success'' = Some (JBool True)
   \<and> map_of (run sample_environment ''[{}, {}]'' []) ''metadata'' = Some (JDict
        [(''test_case_count'', JInt 2), (''output_format'', JStr ''excel''),
         (''generated_at'', JStr ''2024-01-01T00:00:00'')])"
proof -
  have p: "parse_json_input sample_environment ''[{}, {}]'' = Inr (JList [JDict [], JDict []])"
    by (simp add: parse_json_input_def sample_environment_def)
  have "\<exists>res. generate_excel sample_environment [JDict [], JDict []]
      (JStr ''test_cases'') (JBool True) = Inr res"
    by (simp add: generate_excel_def sample_environment_def)
  then obtain res where g: "generate_excel sample_environment [JDict [], JDict []]
      (JStr ''test_cases'') (JBool True) = Inr res"
    by blast
  have "\<exists>result. run_body sample_environment ''[{}, {}]'' [] = Inr result"
    by (simp add: run_body_def p g extract_test_cases_def dict_get_def)
  then obtain result where b: "run_body sample_environment ''[{}, {}]'' [] = Inr result"
    by blast
  then have "run sample_environment ''[{}, {}]'' [] = result" by (simp add: run_def)
  with run_body_success [OF b]
  have s: "map_of (run sample_environment ''[{}, {}]'' []) ''success'' = Some (JBool True)"
    by simp
  from extract_bare_list [of "[JDict [], JDict []]" sample_environment "''[{}, {}]''" "[]"] p s
  have "map_of (run sample_environment ''[{}, {}]'' []) ''metadata'' = Some (JDict
             [(''test_case_count'', JInt (int (length [JDict [], JDict []]))),
              (''output_format'', dict_get [] ''output_format'' (JStr ''excel'')),
              (''generated_at'', JStr (now_isoformat sample_environment))])"
    by blast
  with s show ?thesis by (simp add: dict_get_def sample_environment_def)
qed

text \<open>
  C3. Whatever the block under \<open>try\<close> raises, \<open>run\<close> returns the failure dict:
  \<open>success\<close> is false, \<open>error\<close> is the text of the exception, and there is no \<open>data\<close>
  key. An exception of the parsing and an exception of the projection of the rows are
  such exceptions, and \<open>run\<close> reports a failure only when the block raised. In
  particular the text \<open>{not json\<close>, which names no file and which \<open>json.loads\<close>
  rejects, gives \<open>success\<close> false.
\<close>

theorem run_catches_exceptions:
  "(run_body env s kw = Inl e \<longrightarrow>
      run env s kw =
        [(''success'', JBool False), (''error'', JStr (exc_str e)),
         (''message'', JStr message_failed)])
   \<and> (parse_json_input env s = Inl e \<longrightarrow> run_body env s kw = Inl e)
   \<and> (parse_json_input env s = Inr data \<and>
       prepare_rows (repr_str env) (extract_test_cases data) = Inl e
       \<longrightarrow> run_body env s kw = Inl e)
   \<and> (map_of (run env s kw) ''success'' = Some (JBool False) \<longleftrightarrow>
        (\<exists>e'. run_body env s kw = Inl e'))
   \<and> (map_of (run env s kw) ''success'' = Some (JBool False) \<longrightarrow>
        map_of (run env s kw) ''data'' = None \<and>
        (\<exists>msg. map_of (run env s kw) ''error'' = Some (JStr msg)))
   \<and> (\<not> path_exists env ''{not json'' \<and> json_loads env ''{not json'' = Inl e \<longrightarrow>
        map_of (run env ''{not json'' kw) ''success'' = Some (JBool False))"
proof (intro conjI impI)
  show "run env s kw =
        [(''success'', JBool False), (''error'', JStr (exc_str e)),
         (''message'', JStr message_failed)]" if "run_body env s kw = Inl e"
    using that by (rule run_failure)
  show "run_body env s kw = Inl e" if "parse_json_input env s = Inl e"
    using that by (rule run_body_parse_error)
  show "run_body env s kw = Inl e"
    if "parse_json_input env s = Inr data \<and>
        prepare_rows (repr_str env) (extract_test_cases data) = Inl e"
    using that run_body_rows_error by blast
  show "map_of (run env s kw) ''success'' = Some (JBool False) \<longleftrightarrow>
        (\<exists>e'. run_body env s kw = Inl e')"
    by (rule run_success_iff)
  show "map_of (run env s kw) ''data'' = None"
    if "map_of (run env s kw) ''success'' = Some (JBool False)"
    using that run_success_iff [of env s kw] by (auto simp: run_failure)
  show "\<exists>msg. map_of (run env s kw) ''error'' = Some (JStr msg)"
    if "map_of (run env s kw) ''success'' = Some (JBool False)"
    using that run_success_iff [of env s kw] by (auto simp: run_failure)
  show "map_of (run env ''{not json'' kw) ''success'' = Some (JBool False)"
    if "\<not> path_exists env ''{not json'' \<and> json_loads env ''{not json'' = Inl e"
  proof -
    from that have "parse_json_input env ''{not json'' = Inl e"
      by (simp add: parse_json_input_def)
    then have "run_body env ''{not json'' kw = Inl e" by (rule run_body_parse_error)
    then show ?thesis by (simp add: run_failure)
  qed
qed

theorem run_catches_exceptions_witness:
  "run sample_environment ''{not json'' [(''output_format'', JStr ''csv'')] =
     [(''success'', JBool False),
      (''error'', JStr
         ''Expecting property name enclosed in double quotes: line 1 column 2 (char 1)''),
      (''message'', JStr message_failed)]
   \<and> map_of (run sample_environment ''{not json'' [(''output_format'', JStr ''csv'')])
        ''success'' = Some (JBool False)
   \<and> map_of (run sample_environment ''{not json'' [(''output_format'', JStr ''csv'')])
        ''data'' = None"
proof -
  let ?e = "PyException ''JSONDecodeError''
          ''Expecting property name enclosed in double quotes: line 1 column 2 (char 1)''"
  have p: "\<not> path_exists sample_environment ''{not json''"
    by (simp add: sample_environment_def)
  have l: "json_loads sample_environment ''{not json'' = Inl ?e"
    by (simp add: sample_environment_def)
  have q: "parse_json_input sample_environment ''{not json'' = Inl ?e"
    using p l by (simp add: parse_json_input_def)
  show ?thesis
    using p l q
      run_catches_exceptions [of sample_environment "''{not json''"
        "[(''output_format'', JStr ''csv'')]" ?e]
    by simp
qed

lemma prepare_row_non_dict:
  "\<not> is_dict r \<Longrightarrow> prepare_test_case_row q r = Inl (no_attribute r ''get'')"
  by (cases r) (simp_all add: is_dict_def)

lemma prepare_row_dict:
  "is_dict r \<Longrightarrow> \<exists>row. prepare_test_case_row q r = Inr row"
  by (cases r) (simp_all add: is_dict_def)

lemma prepare_rows_non_dict:
  "r \<in> set cs \<Longrightarrow> \<not> is_dict r \<Longrightarrow>
   \<exists>bad \<in> set cs. \<not> is_dict bad \<and> prepare_rows q cs = Inl (no_attribute bad ''get'')"
proof (induction cs)
  case Nil
  then show ?case by simp
next
  case (Cons c cs)
  show ?case
  proof (cases "is_dict c")
    case False
    then show ?thesis by (simp add: prepare_row_non_dict)
  next
    case True
    then obtain row where row: "prepare_test_case_row q c = Inr row"
      using prepare_row_dict by blast
    from True Cons.prems have "r \<in> set cs" by auto
    with Cons.IH Cons.prems obtain bad where
      "bad \<in> set cs" "\<not> is_dict bad" "prepare_rows q cs = Inl (no_attribute bad ''get'')"
      by blast
    with row show ?thesis by auto
  qed
qed

text \<open>
  C9. The projection of a record that is not a dict raises \<open>AttributeError\<close>. So when
  the parsed document gives an extracted list with such a record in it, \<open>run\<close> returns
  the failure dict of that exception, for the first such record of the list:
  \<open>success\<close> is false and there is no \<open>data\<close> key, so no row is returned for any
  record, the dict-shaped ones included. A bare list with a scalar or a string among
  its elements is such a document.
\<close>

theorem non_object_record_fails:
  "(\<not> is_dict r \<longrightarrow> prepare_test_case_row q r = Inl (no_attribute r ''get''))
   \<and> (parse_json_input env s = Inr data \<and> r \<in> set (extract_test_cases data) \<and> \<not> is_dict r
      \<longrightarrow> (\<exists>bad \<in> set (extract_test_cases data). \<not> is_dict bad \<and>
             run env s kw =
               [(''success'', JBool False),
                (''error'', JStr (exc_str (no_attribute bad ''get''))),
                (''message'', JStr message_failed)])
          \<and> map_of (run env s kw) ''success'' = Some (JBool False)
          \<and> map_of (run env s kw) ''data'' = None)
   \<and> (parse_json_input env s = Inr (JList xs) \<and> r \<in> set xs \<and> \<not> is_dict r
      \<longrightarrow> map_of (run env s kw) ''success'' = Some (JBool False)
          \<and> map_of (run env s kw) ''data'' = None)"
proof -
  have failing: "(\<exists>bad \<in> set (extract_test_cases data). \<not> is_dict bad \<and>
             run env s kw =
               [(''success'', JBool False),
                (''error'', JStr (exc_str (no_attribute bad ''get''))),
                (''message'', JStr message_failed)])
          \<and> map_of (run env s kw) ''success'' = Some (JBool False)
          \<and> map_of (run env s kw) ''data'' = None"
    if a: "parse_json_input env s = Inr data" "r \<in> set (extract_test_cases data)" "\<not> is_dict r"
    for data
  proof -
    from a obtain bad where bad: "bad \<in> set (extract_test_cases data)" "\<not> is_dict bad"
      "prepare_rows (repr_str env) (extract_test_cases data) = Inl (no_attribute bad ''get'')"
      using prepare_rows_non_dict by blast
    with a have "run_body env s kw = Inl (no_attribute bad ''get'')"
      using run_body_rows_error by blast
    then have "run env s kw =
               [(''success'', JBool False),
                (''error'', JStr (exc_str (no_attribute bad ''get''))),
                (''message'', JStr message_failed)]"
      by (rule run_failure)
    with bad show ?thesis by auto
  qed
  have bare: "map_of (run env s kw) ''success'' = Some (JBool False)
          \<and> map_of (run env s kw) ''data'' = None"
    if "parse_json_input env s = Inr (JList xs) \<and> r \<in> set xs \<and> \<not> is_dict r"
    using that failing [of "JList xs"] by (simp add: extract_test_cases_def)
  show ?thesis
    using failing bare by (simp add: prepare_row_non_dict)
qed

theorem non_object_record_fails_witness:
  "run sample_environment ''[{}, 7]'' [] =
     [(''success'', JBool False),
      (''error'', JStr ([CHR 0x27] @ ''int'' @ [CHR 0x27] @ '' object has no attribute '' @
          [CHR 0x27] @ ''get'' @ [CHR 0x27])),
      (''message'', JStr message_failed)]
   \<and> map_of (run sample_environment ''[{}, 7]'' []) ''data'' = None"
proof -
  have p: "parse_json_input sample_environment ''[{}, 7]'' = Inr (JList [JDict [], JInt 7])"
    by (simp add: parse_json_input_def sample_environment_def)
  have m: "JInt 7 \<in> set (extract_test_cases (JList [JDict [], JInt 7]))"
    by (simp add: extract_test_cases_def)
  have n: "\<not> is_dict (JInt 7)" by (simp add: is_dict_def)
  from non_object_record_fails [of "JInt 7" "\<lambda>s. s" sample_environment "''[{}, 7]''"
      "JList [JDict [], JInt 7]" "[]" "[JDict [], JInt 7]"] p m n
  obtain bad where bad: "bad \<in> set (extract_test_cases (JList [JDict [], JInt 7]))"
    "\<not> is_dict bad"
    "run sample_environment ''[{}, 7]'' [] =
               [(''success'', JBool False),
                (''error'', JStr (exc_str (no_attribute bad ''get''))),
                (''message'', JStr message_failed)]"
    by blast
  then have "bad = JInt 7" by (auto simp: extract_test_cases_def is_dict_def)
  with bad show ?thesis by (simp add: no_attribute_def)
qed

end
